theory Spec2Isabelle
  imports Complex_Main
begin

section \<open>The RiskOps scoring engine (\<^verbatim>\<open>risk_engine.py\<close>, \<^verbatim>\<open>schema.py\<close>)\<close>

text \<open>
  The engine is a set of pure Python functions over floats and strings.

  \<^item> A Python \<^verbatim>\<open>float\<close> is modelled by a \<^typ>\<open>real\<close>: every arithmetic operation is
    exact, so the rounding error of the individual IEEE operations is not part of the model.
    The decimal rounding \<^verbatim>\<open>round(x, n)\<close> that the code calls explicitly is part of the
    model (\<open>py_round\<close>, ties to the even neighbour, as CPython does on the exact value of
    the double it is given).
  \<^item> A Python \<^verbatim>\<open>str\<close> is modelled by a \<^typ>\<open>string\<close> holding its UTF-8 bytes; the
    accented letters of the French messages are written as their two bytes.
  \<^item> \<^verbatim>\<open>Optional[T]\<close> is \<open>T option\<close>; \<^verbatim>\<open>x or default\<close> is written out as the test it
    performs (\<^verbatim>\<open>None\<close>, the empty string and \<^verbatim>\<open>0.0\<close> are falsy).

  The exact arithmetic has consequences where the engine sits on a decimal tie or on a
  breakpoint, and the model and the code can then return different values:

  \<^item> a sum or product that is exactly a tie in the model (16.405, 17.235, 0.005) is a double
    just above or below the tie in the code, so \<^verbatim>\<open>round\<close> may go the other way there
    (16.41 against 16.4, 17.23 against 17.24, 0.01 against 0); the same holds for the digit
    printed by \<open>format_1f\<close>;
  \<^item> contributions that add up to exactly 25, 50 or 75 in the model can add up to a double
    just below it in the code (24.999999999999996), which is then classified one level lower;
  \<^item> the reals do not overflow: a production value near the largest double gives an infinite
    cost in the code and a finite one in the model.

  The properties below are therefore stated so that they do not depend on the direction of
  a tie nor on the last bits of a double: as inequalities, as bounds with an explicit
  allowance, and as equations only on values that are far from every tie.
\<close>

subsection \<open>Strings\<close>

text \<open>
  \<^verbatim>\<open>str.lower()\<close>. The engine only compares lowered strings with ASCII keywords, and the
  ASCII letters are the only characters whose lower-case form is an ASCII letter of one of
  these keywords, so the other bytes are left as they are.
\<close>

definition lower_char :: "char \<Rightarrow> char" where
  "lower_char c =
     (case map_of (zip ''ABCDEFGHIJKLMNOPQRSTUVWXYZ'' ''abcdefghijklmnopqrstuvwxyz'') c of
        None \<Rightarrow> c
      | Some d \<Rightarrow> d)"

definition lower :: "string \<Rightarrow> string" where
  "lower s = map lower_char s"

text \<open>\<^verbatim>\<open>sub in s\<close> on strings: \<open>sub\<close> occurs in \<open>s\<close> as a contiguous block.\<close>

fun contains :: "string \<Rightarrow> string \<Rightarrow> bool" where
  "contains sub [] = (sub = [])"
| "contains sub (c # cs) = (take (length sub) (c # cs) = sub \<or> contains sub cs)"

text \<open>\<^verbatim>\<open>s or default\<close> for a string and for an optional string.\<close>

definition str_or :: "string \<Rightarrow> string \<Rightarrow> string" where
  "str_or s dflt = (if s = [] then dflt else s)"

definition opt_str_or :: "string option \<Rightarrow> string \<Rightarrow> string" where
  "opt_str_or s dflt = (case s of None \<Rightarrow> dflt | Some t \<Rightarrow> str_or t dflt)"

text \<open>\<^verbatim>\<open>x or 0.0\<close> for an optional float: \<^verbatim>\<open>None\<close> and \<^verbatim>\<open>0.0\<close> both give \<open>0\<close>.\<close>

definition opt_real_or0 :: "real option \<Rightarrow> real" where
  "opt_real_or0 x = (case x of None \<Rightarrow> 0 | Some v \<Rightarrow> v)"

subsection \<open>Decimal rounding and formatting\<close>

definition round_half_even :: "real \<Rightarrow> int" where
  "round_half_even x =
     (let f = \<lfloor>x\<rfloor>; d = x - of_int f
      in if d < 1 / 2 then f else if 1 / 2 < d then f + 1 else if even f then f else f + 1)"

text \<open>\<^verbatim>\<open>round(x, n)\<close> for a float \<open>x\<close> and \<open>n \<ge> 0\<close> digits.\<close>

definition py_round :: "real \<Rightarrow> nat \<Rightarrow> real" where
  "py_round x n = of_int (round_half_even (x * 10 ^ n)) / 10 ^ n"

definition digit_char :: "nat \<Rightarrow> char" where
  "digit_char d = ''0123456789'' ! (d mod 10)"

fun digits_of :: "nat \<Rightarrow> string" where
  "digits_of n = (if n < 10 then [digit_char n] else digits_of (n div 10) @ [digit_char n])"

declare digits_of.simps [simp del]

text \<open>The format \<^verbatim>\<open>{x:.1f}\<close>: one digit after the point, rounded as above.\<close>

definition format_1f :: "real \<Rightarrow> string" where
  "format_1f x =
     (let t = nat \<bar>round_half_even (x * 10)\<bar>
      in (if x < 0 then ''-'' else '''') @ digits_of (t div 10) @ ''.'' @ [digit_char t])"

subsection \<open>Data model (\<^verbatim>\<open>schema.py\<close>)\<close>

record Detection =
  det_id :: string
  label :: string
  substance_pred :: string
  confidence :: real
  area_ratio :: "real option"

record Context =
  site_id :: string
  zone_id :: "string option"
  zone_type :: "string option"
  proximity_to_machines :: "string option"
  floor_type :: "string option"
  production_value_per_hour :: "real option"

text \<open>
  A factor (the field \<^verbatim>\<open>value\<close> is named \<open>fvalue\<close> here).
\<close>

record RiskFactor =
  name :: string
  fvalue :: real
  weight :: real
  contribution :: real

text \<open>
  The result. The engine sets the four mitigation fields in every call, so they are plain
  values here.
\<close>

record RiskResult =
  image_id :: string
  global_severity_score :: real
  global_severity_level :: string
  estimated_cost :: real
  currency :: string
  factors :: "RiskFactor list"
  explanation :: string
  recommendations :: "string list"
  mitigated_severity_score :: real
  mitigated_severity_level :: string
  mitigated_cost :: real
  risk_reduction_pct :: real

subsection \<open>Sub-scores\<close>

definition area_factor :: "real \<Rightarrow> real" where
  "area_factor a = (if a \<le> 0.15 then 0.6 else if a \<le> 0.35 then 1.0 else 1.3)"

text \<open>The clamp \<^verbatim>\<open>max(0.0, min(score, 100.0))\<close> that ends every sub-score.\<close>

definition clamp100 :: "real \<Rightarrow> real" where
  "clamp100 score = max 0 (min score 100)"

definition physical_score :: "Detection \<Rightarrow> Context \<Rightarrow> real" where
  "physical_score detection context =
     (let substance = lower (str_or (substance_pred detection) ''unknown'');
          a = opt_real_or0 (area_ratio detection);
          floor = lower (opt_str_or (floor_type context) '''');
          base = (if substance = ''water'' then 20
                  else if substance = ''oil'' then 40
                  else if substance = ''chemical'' then 70
                  else 30);
          af = area_factor a;
          floor_factor = (if contains ''absorbent'' floor then 0.8 else 1.1);
          score = base * af * floor_factor
      in clamp100 score)"

definition electrical_score :: "Detection \<Rightarrow> Context \<Rightarrow> real" where
  "electrical_score detection context =
     (let substance = lower (str_or (substance_pred detection) ''unknown'');
          zone = lower (opt_str_or (zone_type context) '''');
          proximity = lower (opt_str_or (proximity_to_machines context) '''');
          a = opt_real_or0 (area_ratio detection);
          base = (if zone = ''electrical_room'' then
                    (if substance = ''chemical'' then 80
                     else if substance = ''water'' then 60
                     else if substance = ''oil'' then 40
                     else 0)
                  else if zone = ''production'' \<or> zone = ''storage'' then
                    (if proximity = ''near_machine'' \<or> proximity = ''critical_machine'' then
                       (if substance = ''chemical'' then 50
                        else if substance = ''oil'' then 40
                        else if substance = ''water'' then 25
                        else 0)
                     else 0)
                  else 0);
          af = area_factor a;
          score = base * af
      in clamp100 score)"

definition human_safety_score :: "Detection \<Rightarrow> Context \<Rightarrow> real" where
  "human_safety_score detection context =
     (let substance = lower (str_or (substance_pred detection) ''unknown'');
          proximity = lower (opt_str_or (proximity_to_machines context) '''');
          a = opt_real_or0 (area_ratio detection);
          base = (if substance = ''water'' then 20
                  else if substance = ''oil'' then 40
                  else if substance = ''chemical'' then 70
                  else 30);
          af = area_factor a;
          pf = (if proximity = ''far'' then 0.7
                else if proximity = ''near_machine'' then 1.0
                else if proximity = ''critical_machine'' then 1.2
                else 1.0);
          score = base * af * pf
      in clamp100 score)"

definition business_score :: "Detection \<Rightarrow> Context \<Rightarrow> real" where
  "business_score detection context =
     (let zone = lower (opt_str_or (zone_type context) '''');
          a = opt_real_or0 (area_ratio detection);
          prod_value = opt_real_or0 (production_value_per_hour context);
          zone_mult = (if zone = ''production'' then 1.0
                       else if zone = ''electrical_room'' then 0.8
                       else if zone = ''storage'' then 0.7
                       else 0.5);
          base = min (prod_value / 500) 100;
          af = area_factor a;
          score = base * af * zone_mult
      in clamp100 score)"

definition model_confidence_score :: "Detection \<Rightarrow> real" where
  "model_confidence_score detection = clamp100 (confidence detection * 100)"

definition severity_level :: "real \<Rightarrow> string" where
  "severity_level score =
     (if score < 25 then ''LOW''
      else if score < 50 then ''MEDIUM''
      else if score < 75 then ''HIGH''
      else ''CRITICAL'')"

subsection \<open>Cost estimate\<close>

definition estimate_cost :: "real \<Rightarrow> Detection \<Rightarrow> Context \<Rightarrow> real" where
  "estimate_cost global_score detection context =
     (let prod_value = opt_real_or0 (production_value_per_hour context);
          a = opt_real_or0 (area_ratio detection);
          substance = lower (str_or (substance_pred detection) ''unknown'');
          hours_lost = min (4 * a) 4;
          dmg_factor = (if substance = ''water'' then 0.6
                        else if substance = ''oil'' then 1.0
                        else if substance = ''chemical'' then 2.0
                        else 0.8);
          base_loss = prod_value * hours_lost * dmg_factor;
          severity_factor = 0.5 + global_score / 100;
          cost = base_loss * severity_factor
      in max 0 cost)"

subsection \<open>Recommendations and explanation\<close>

text \<open>The UTF-8 bytes of the accented letters of the messages.\<close>

abbreviation e_acute :: string where "e_acute \<equiv> [CHR 0xC3, CHR 0xA9]"
abbreviation e_grave :: string where "e_grave \<equiv> [CHR 0xC3, CHR 0xA8]"
abbreviation a_grave :: string where "a_grave \<equiv> [CHR 0xC3, CHR 0xA0]"

text \<open>The message literals of \<^verbatim>\<open>_build_recommendations\<close>, in the order of the source.\<close>

definition rec_isolate :: string where
  "rec_isolate = ''Isoler la zone et baliser l'acc'' @ e_grave @ ''s (cones, rubalise).''"

definition rec_oil :: string where
  "rec_oil = ''Nettoyage urgent avec kit absorbant adapt'' @ e_acute @ '' '' @ a_grave
       @ '' l'huile.''"

definition rec_water :: string where
  "rec_water = ''S'' @ e_acute @ ''cher / nettoyer la zone pour '' @ e_acute
       @ ''viter les chutes.''"

definition rec_chemical :: string where
  "rec_chemical = ''D'' @ e_acute @ ''clencher la proc'' @ e_acute @ ''dure de d'' @ e_acute
       @ ''versement chimique (EPI, SDS, ventilation).''"

definition rec_power_cutoff :: string where
  "rec_power_cutoff = ''Couper l'alimentation '' @ e_acute
       @ ''lectrique de la zone si possible et s'' @ e_acute @ ''curis'' @ e_acute @ ''.''"

definition rec_inform_hse :: string where
  "rec_inform_hse = ''Informer imm'' @ e_acute @ ''diatement le responsable HSE / s''
       @ e_acute @ ''curit'' @ e_acute @ '' du site.''"

definition rec_document_root_causes :: string where
  "rec_document_root_causes =
     ''Documenter l'incident dans le registre HSE et analyser les causes racines.''"

definition rec_document :: string where
  "rec_document = ''Documenter l'incident dans le registre HSE.''"

text \<open>
  \<^verbatim>\<open>_build_recommendations\<close>: the list \<open>recs\<close> after each group of \<^verbatim>\<open>append\<close> calls.
\<close>

definition build_recommendations :: "string \<Rightarrow> Detection \<Rightarrow> Context \<Rightarrow> string list" where
  "build_recommendations level detection context =
     (let recs0 = [rec_isolate];
          substance = lower (str_or (substance_pred detection) ''unknown'');
          zone = lower (opt_str_or (zone_type context) '''');
          recs1 = (if substance = ''oil'' then recs0 @ [rec_oil]
                   else if substance = ''water'' then recs0 @ [rec_water]
                   else if substance = ''chemical'' then recs0 @ [rec_chemical]
                   else recs0);
          recs2 = (if zone = ''electrical_room'' then recs1 @ [rec_power_cutoff] else recs1);
          recs3 = (if level = ''HIGH'' \<or> level = ''CRITICAL''
                   then (recs2 @ [rec_inform_hse]) @ [rec_document_root_causes]
                   else recs2 @ [rec_document])
      in recs3)"

definition build_explanation :: "string \<Rightarrow> real \<Rightarrow> Detection \<Rightarrow> Context \<Rightarrow> string" where
  "build_explanation level score detection context =
     (let substance = str_or (substance_pred detection) ''unknown'';
          zone = opt_str_or (zone_type context) ''unknown'';
          proximity = opt_str_or (proximity_to_machines context) ''unknown''
      in ''Incident class'' @ e_acute @ '' '' @ level @ '' (score '' @ format_1f score
           @ ''/100). ''
         @ ''Substance d'' @ e_acute @ ''tect'' @ e_acute @ ''e : '' @ substance @ ''. ''
         @ ''Zone : '' @ zone @ '', proximit'' @ e_acute @ '' aux '' @ e_acute
           @ ''quipements : '' @ proximity @ ''. ''
         @ ''Les scores d'' @ e_acute @ ''taill'' @ e_acute @ ''s (physique, '' @ e_acute
           @ ''lectrique, humain, business, confiance mod'' @ e_grave @ ''le) ''
         @ ''contribuent chacun au score global en fonction de leur poids.'')"

definition no_detection_explanation :: string where
  "no_detection_explanation =
     ''Aucune d'' @ e_acute @ ''tection fournie. Score de risque nul.''"

subsection \<open>Mitigation\<close>

definition apply_mitigation ::
  "real \<Rightarrow> real \<Rightarrow> real \<Rightarrow> real \<Rightarrow> real \<Rightarrow> real \<times> real \<times> real \<times> real \<times> real" where
  "apply_mitigation physical electrical human business model_conf =
     (let physical_after = physical * 0.5;
          electrical_after = electrical * 0.5;
          human_after = human * 0.6;
          business_after = business * 0.7;
          model_conf_after = model_conf
      in (physical_after, electrical_after, human_after, business_after, model_conf_after))"

subsection \<open>The entry point \<^verbatim>\<open>build_risk_result\<close>\<close>

text \<open>The five weights (step 2 of the function).\<close>

definition w_physical :: real where "w_physical = 0.35"
definition w_electrical :: real where "w_electrical = 0.20"
definition w_human :: real where "w_human = 0.20"
definition w_business :: real where "w_business = 0.15"
definition w_model_conf :: real where "w_model_conf = 0.10"

text \<open>One dictionary appended to \<open>factors\<close> (step 3), from the unrounded sub-score \<open>v\<close>.\<close>

definition factor_entry :: "string \<Rightarrow> real \<Rightarrow> real \<Rightarrow> RiskFactor" where
  "factor_entry n v w =
     \<lparr>name = n, fvalue = py_round v 2, weight = w, contribution = py_round (v * w) 3\<rparr>"

text \<open>The local \<open>factors\<close> after the five \<^verbatim>\<open>append\<close> calls (steps 1 to 3).\<close>

definition build_factors :: "Detection \<Rightarrow> Context \<Rightarrow> RiskFactor list" where
  "build_factors det context =
     (let physical = physical_score det context;
          electrical = electrical_score det context;
          human = human_safety_score det context;
          business = business_score det context;
          model_conf = model_confidence_score det
      in [factor_entry ''physical'' physical w_physical,
          factor_entry ''electrical'' electrical w_electrical,
          factor_entry ''human_safety'' human w_human,
          factor_entry ''business'' business w_business,
          factor_entry ''model_confidence'' model_conf w_model_conf])"

text \<open>The local \<open>global_score\<close> (step 4): the sum of the contributions in \<open>factors\<close>.\<close>

definition global_score_of :: "Detection \<Rightarrow> Context \<Rightarrow> real" where
  "global_score_of det context = sum_list (map contribution (build_factors det context))"

text \<open>The local \<open>mitigated_score\<close> (step 7): the sum of \<open>factors_after\<close>.\<close>

definition mitigated_score_of :: "Detection \<Rightarrow> Context \<Rightarrow> real" where
  "mitigated_score_of det context =
     (case apply_mitigation (physical_score det context) (electrical_score det context)
             (human_safety_score det context) (business_score det context)
             (model_confidence_score det) of
        (physical_after, electrical_after, human_after, business_after, model_conf_after) \<Rightarrow>
          sum_list [physical_after * w_physical,
                    electrical_after * w_electrical,
                    human_after * w_human,
                    business_after * w_business,
                    model_conf_after * w_model_conf])"

text \<open>The locals \<open>mitigated_cost\<close> and \<open>risk_reduction_pct\<close>, before they are rounded.\<close>

definition mitigated_cost_of :: "real \<Rightarrow> real \<Rightarrow> real \<Rightarrow> real" where
  "mitigated_cost_of global_score mitigated_score est_cost =
     (if global_score > 0 then est_cost * (mitigated_score / global_score) else 0)"

definition risk_reduction_pct_of :: "real \<Rightarrow> real \<Rightarrow> real" where
  "risk_reduction_pct_of global_score mitigated_score =
     (if global_score > 0 then (global_score - mitigated_score) / global_score * 100 else 0)"

definition build_risk_result :: "string \<Rightarrow> Detection list \<Rightarrow> Context \<Rightarrow> RiskResult" where
  "build_risk_result img detections context =
     (case detections of
        [] \<Rightarrow>
          \<lparr>image_id = img,
           global_severity_score = 0,
           global_severity_level = ''LOW'',
           estimated_cost = 0,
           currency = ''EUR'',
           factors = [],
           explanation = no_detection_explanation,
           recommendations = [],
           mitigated_severity_score = 0,
           mitigated_severity_level = ''LOW'',
           mitigated_cost = 0,
           risk_reduction_pct = 0\<rparr>
      | det # _ \<Rightarrow>
          (let global_score = global_score_of det context;
               global_level = severity_level global_score;
               est_cost = estimate_cost global_score det context;
               expl = build_explanation global_level global_score det context;
               recs = build_recommendations global_level det context;
               mitigated_score = mitigated_score_of det context;
               mitigated_level = severity_level mitigated_score;
               mit_cost = mitigated_cost_of global_score mitigated_score est_cost;
               reduction = risk_reduction_pct_of global_score mitigated_score
           in \<lparr>image_id = img,
               global_severity_score = py_round global_score 2,
               global_severity_level = global_level,
               estimated_cost = py_round est_cost 2,
               currency = ''EUR'',
               factors = build_factors det context,
               explanation = expl,
               recommendations = recs,
               mitigated_severity_score = py_round mitigated_score 2,
               mitigated_severity_level = mitigated_level,
               mitigated_cost = py_round mit_cost 2,
               risk_reduction_pct = py_round reduction 1\<rparr>))"

subsection \<open>Concrete scenarios\<close>

text \<open>
  The demonstration scenario of the repository (\<^verbatim>\<open>demo_risk_pipeline.py\<close>, the dashboard's
  production preset): an oil spill near a machine in a production zone, on a floor declared
  \<^verbatim>\<open>non_absorbent\<close>.
\<close>

definition oil_detection :: Detection where
  "oil_detection =
     \<lparr>det_id = ''det_1'', label = ''spill'', substance_pred = ''oil'',
      confidence = 0.93, area_ratio = Some 0.30\<rparr>"

definition production_context :: Context where
  "production_context =
     \<lparr>site_id = ''SITE_001'', zone_id = Some ''Z1'', zone_type = Some ''production'',
      proximity_to_machines = Some ''near_machine'', floor_type = Some ''non_absorbent'',
      production_value_per_hour = Some 8000\<rparr>"

text \<open>The same zone with a production value of 5002 per hour.\<close>

definition production_context_5002 :: Context where
  "production_context_5002 = production_context\<lparr>production_value_per_hour := Some 5002\<rparr>"

text \<open>A small water spill of low confidence in a corridor with an absorbent floor.\<close>

definition water_detection :: Detection where
  "water_detection =
     \<lparr>det_id = ''det_2'', label = ''spill'', substance_pred = ''water'',
      confidence = 0.0101, area_ratio = Some 0.10\<rparr>"

definition corridor_context :: Context where
  "corridor_context =
     \<lparr>site_id = ''SITE_001'', zone_id = None, zone_type = Some ''corridor'',
      proximity_to_machines = Some ''far'', floor_type = Some ''absorbent'',
      production_value_per_hour = None\<rparr>"

text \<open>The dashboard's electrical-room preset: a large chemical spill at a critical machine.\<close>

definition chemical_detection :: Detection where
  "chemical_detection =
     \<lparr>det_id = ''det_3'', label = ''spill'', substance_pred = ''chemical'',
      confidence = 0.9, area_ratio = Some 0.5\<rparr>"

definition electrical_room_context :: Context where
  "electrical_room_context =
     \<lparr>site_id = ''SITE_001'', zone_id = Some ''Z2'', zone_type = Some ''electrical_room'',
      proximity_to_machines = Some ''critical_machine'', floor_type = Some ''non_absorbent'',
      production_value_per_hour = Some 15000\<rparr>"

text \<open>The demonstration spill away from the machines, at two confidences.\<close>

definition oil_detection_5796 :: Detection where
  "oil_detection_5796 = oil_detection\<lparr>confidence := 0.5796\<rparr>"

definition oil_detection_5804 :: Detection where
  "oil_detection_5804 = oil_detection\<lparr>confidence := 0.5804\<rparr>"

definition production_far_context :: Context where
  "production_far_context = production_context\<lparr>proximity_to_machines := Some ''far''\<rparr>"

subsection \<open>An allowance for double arithmetic\<close>

text \<open>
  The numeric bounds proved below carry this allowance, so that they are meant for the
  doubles of the code as well as for the reals of the model. The scores are at most 100, and
  there one double operation errs by less than a hundred-million-millionth, far below the
  allowance.
\<close>

definition float_tolerance :: real where
  "float_tolerance = 1 / 10 ^ 9"

subsection \<open>The electrical base as the specification words it\<close>

text \<open>
  The specification gives the base of the electrical score as two tables, one for an
  electrical room and one for a production or storage zone next to a machine; a substance
  missing from the table, and every other zone or proximity, has base 0.
\<close>

definition electrical_room_table :: "(string \<times> real) list" where
  "electrical_room_table = [(''chemical'', 80), (''water'', 60), (''oil'', 40)]"

definition machine_zone_table :: "(string \<times> real) list" where
  "machine_zone_table = [(''chemical'', 50), (''oil'', 40), (''water'', 25)]"

definition table_base :: "(string \<times> real) list \<Rightarrow> string \<Rightarrow> real" where
  "table_base table substance = (case map_of table substance of None \<Rightarrow> 0 | Some b \<Rightarrow> b)"

definition electrical_base_spec :: "string \<Rightarrow> string \<Rightarrow> string \<Rightarrow> real" where
  "electrical_base_spec zone proximity substance =
     (if zone = ''electrical_room'' then table_base electrical_room_table substance
      else if zone \<in> {''production'', ''storage''}
              \<and> proximity \<in> {''near_machine'', ''critical_machine''}
           then table_base machine_zone_table substance
      else 0)"

section \<open>Properties\<close>

subsection \<open>Rounding\<close>

lemma rhe_ge_floor: "\<lfloor>x\<rfloor> \<le> round_half_even x"
  by (simp add: round_half_even_def Let_def)

lemma rhe_le_floor1: "round_half_even x \<le> \<lfloor>x\<rfloor> + 1"
  by (simp add: round_half_even_def Let_def)

lemma rhe_upper: "of_int (round_half_even x) \<le> x + 1 / 2"
  by (auto simp: round_half_even_def Let_def; linarith)

lemma rhe_lower: "x - 1 / 2 \<le> of_int (round_half_even x)"
  by (auto simp: round_half_even_def Let_def; linarith)

text \<open>Rounding to the nearest integer is monotone, whichever way the ties go.\<close>

lemma rhe_mono:
  assumes "x \<le> y"
  shows "round_half_even x \<le> round_half_even y"
proof (cases "\<lfloor>x\<rfloor> = \<lfloor>y\<rfloor>")
  case True
  with assms show ?thesis
    by (auto simp: round_half_even_def Let_def)
next
  case False
  with assms have "\<lfloor>x\<rfloor> + 1 \<le> \<lfloor>y\<rfloor>"
    using floor_mono [of x y] by linarith
  with rhe_le_floor1 [of x] rhe_ge_floor [of y] show ?thesis by linarith
qed

lemma rhe_of_int: "round_half_even (of_int k) = k"
  by (simp add: round_half_even_def Let_def)

lemma py_round_mono: "x \<le> y \<Longrightarrow> py_round x n \<le> py_round y n"
  unfolding py_round_def
  by (intro divide_right_mono) (simp_all add: rhe_mono)

text \<open>The rounded value is within half a unit of the last kept digit.\<close>

lemma py_round_err: "\<bar>py_round x n - x\<bar> \<le> 1 / (2 * 10 ^ n)"
proof -
  define p :: real where "p = 10 ^ n"
  define r :: real where "r = of_int (round_half_even (x * p))"
  have p: "0 < p" by (simp add: p_def)
  have "\<bar>r - x * p\<bar> \<le> 1 / 2"
    unfolding r_def using rhe_upper [of "x * p"] rhe_lower [of "x * p"] by linarith
  then have "\<bar>r - x * p\<bar> / p \<le> 1 / (2 * p)"
    using p by (simp add: field_simps)
  moreover have "r / p - x = (r - x * p) / p"
    using p by (simp add: field_simps)
  then have "\<bar>r / p - x\<bar> = \<bar>r - x * p\<bar> / p"
    using p by simp
  ultimately have "\<bar>r / p - x\<bar> \<le> 1 / (2 * p)" by simp
  then show ?thesis
    by (simp add: py_round_def r_def p_def)
qed

lemma py_round_of_int_div: "py_round (of_int k / 10 ^ n) n = of_int k / 10 ^ n"
  by (simp add: py_round_def rhe_of_int)

lemma py_round_0: "py_round 0 n = 0"
  by (simp add: py_round_def round_half_even_def)

lemma py_round_nonneg: "0 \<le> x \<Longrightarrow> 0 \<le> py_round x n"
  using py_round_mono [of 0 x n] by (simp add: py_round_0)

lemma py_round_2_err: "\<bar>py_round x 2 - x\<bar> \<le> 1 / 200"
  using py_round_err [of x 2] by simp

lemma py_round_3_err: "\<bar>py_round x 3 - x\<bar> \<le> 1 / 2000"
  using py_round_err [of x 3] by simp

lemma py_round_breakpoints:
  "py_round 25 2 = 25" "py_round 50 2 = 50" "py_round 75 2 = 75"
  by (simp_all add: py_round_def round_half_even_def)

lemma float_tolerance_nonneg: "0 \<le> float_tolerance"
  by (simp add: float_tolerance_def)

text \<open>A rounded number has the decimals it was rounded to.\<close>

lemma py_round_2_decimal: "\<exists>k::int. \<bar>py_round x 2 - of_int k / 100\<bar> \<le> float_tolerance"
proof -
  have "py_round x 2 - of_int (round_half_even (x * 10 ^ 2)) / 100 = 0"
    by (simp add: py_round_def)
  then have "\<bar>py_round x 2 - of_int (round_half_even (x * 10 ^ 2)) / 100\<bar> \<le> float_tolerance"
    using float_tolerance_nonneg by simp
  then show ?thesis ..
qed

lemma py_round_3_decimal: "\<exists>k::int. \<bar>py_round x 3 - of_int k / 1000\<bar> \<le> float_tolerance"
proof -
  have "py_round x 3 - of_int (round_half_even (x * 10 ^ 3)) / 1000 = 0"
    by (simp add: py_round_def)
  then have "\<bar>py_round x 3 - of_int (round_half_even (x * 10 ^ 3)) / 1000\<bar> \<le> float_tolerance"
    using float_tolerance_nonneg by simp
  then show ?thesis ..
qed

subsection \<open>Evaluating the scenarios\<close>

lemmas string_defs = lower_def lower_char_def str_or_def opt_str_or_def opt_real_or0_def

lemmas score_defs = physical_score_def electrical_score_def human_safety_score_def
  business_score_def model_confidence_score_def clamp100_def area_factor_def

lemmas weight_defs = w_physical_def w_electrical_def w_human_def w_business_def w_model_conf_def

lemmas round_defs = py_round_def round_half_even_def

lemmas scenario_defs = oil_detection_def production_context_def production_context_5002_def
  water_detection_def corridor_context_def chemical_detection_def electrical_room_context_def

text \<open>
  The floor of the demonstration scenario is \<^verbatim>\<open>non_absorbent\<close>, and the test
  \<^verbatim>\<open>"absorbent" in floor_type\<close> finds the word inside it.
\<close>

lemma contains_non_absorbent: "contains ''absorbent'' (lower ''non_absorbent'')"
  by code_simp

lemma oil_physical: "physical_score oil_detection production_context = 32"
  by code_simp

lemma oil_electrical: "electrical_score oil_detection production_context = 40"
  by code_simp

lemma oil_human: "human_safety_score oil_detection production_context = 40"
  by code_simp

lemma oil_business: "business_score oil_detection production_context = 16"
  by code_simp

lemma oil_model: "model_confidence_score oil_detection = 93"
  by code_simp

lemma oil_factors:
  "build_factors oil_detection production_context =
     [\<lparr>name = ''physical'', fvalue = 32, weight = 0.35, contribution = 11.2\<rparr>,
      \<lparr>name = ''electrical'', fvalue = 40, weight = 0.2, contribution = 8\<rparr>,
      \<lparr>name = ''human_safety'', fvalue = 40, weight = 0.2, contribution = 8\<rparr>,
      \<lparr>name = ''business'', fvalue = 16, weight = 0.15, contribution = 2.4\<rparr>,
      \<lparr>name = ''model_confidence'', fvalue = 93, weight = 0.1, contribution = 9.3\<rparr>]"
  by code_simp

lemma oil_global: "global_score_of oil_detection production_context = 38.9"
  by (simp add: global_score_of_def oil_factors)

subsection \<open>The example scenario\<close>

text \<open>
  Claim C4. For the scenario substance oil, confidence 0.93, area ratio 0.30, zone type
  production, proximity near_machine, floor type non_absorbent and a production value of
  8000 per hour, the specification announces the sub-scores 44, 40, 40, 16, 93 and the
  global score 43.1. The engine computes something else: the floor type \<^verbatim>\<open>non_absorbent\<close>
  contains the word \<^verbatim>\<open>absorbent\<close>, so the physical score takes the absorbent factor 0.8
  and is 32, and the global score is 38.9. The other three sub-scores, the confidence score
  and the level MEDIUM are as announced.
\<close>

theorem example_scenario_result:
  "physical_score oil_detection production_context = 32
   \<and> electrical_score oil_detection production_context = 40
   \<and> human_safety_score oil_detection production_context = 40
   \<and> business_score oil_detection production_context = 16
   \<and> model_confidence_score oil_detection = 93
   \<and> global_severity_score (build_risk_result img [oil_detection] production_context) = 38.9
   \<and> global_severity_level (build_risk_result img [oil_detection] production_context)
       = ''MEDIUM''"
  by (simp add: oil_physical oil_electrical oil_human oil_business oil_model
        build_risk_result_def oil_global Let_def severity_level_def round_defs)

subsection \<open>No detection\<close>

text \<open>
  Claim C8. For an empty list of detections the result is a fixed record, whatever the
  context: score 0, level LOW, cost 0, no factor, no recommendation, the mitigation fields 0
  and LOW, and the fixed message that no detection was supplied. No sub-score enters it.
\<close>

theorem empty_detections_result:
  "build_risk_result img [] ctx =
     \<lparr>image_id = img,
      global_severity_score = 0,
      global_severity_level = ''LOW'',
      estimated_cost = 0,
      currency = ''EUR'',
      factors = [],
      explanation =
        ''Aucune d'' @ [CHR 0xC3, CHR 0xA9] @ ''tection fournie. Score de risque nul.'',
      recommendations = [],
      mitigated_severity_score = 0,
      mitigated_severity_level = ''LOW'',
      mitigated_cost = 0,
      risk_reduction_pct = 0\<rparr>"
  by (simp add: build_risk_result_def no_detection_explanation_def)

subsection \<open>The fields of the result for a non-empty list\<close>

lemma result_factors: "factors (build_risk_result img (d # ds) ctx) = build_factors d ctx"
  by (simp add: build_risk_result_def Let_def)

lemma result_global:
  "global_severity_score (build_risk_result img (d # ds) ctx)
     = py_round (global_score_of d ctx) 2"
  by (simp add: build_risk_result_def Let_def)

lemma result_level:
  "global_severity_level (build_risk_result img (d # ds) ctx)
     = severity_level (global_score_of d ctx)"
  by (simp add: build_risk_result_def Let_def)

lemma result_recommendations:
  "recommendations (build_risk_result img (d # ds) ctx)
     = build_recommendations (severity_level (global_score_of d ctx)) d ctx"
  by (simp add: build_risk_result_def Let_def)

lemma result_mitigated_score:
  "mitigated_severity_score (build_risk_result img (d # ds) ctx)
     = py_round (mitigated_score_of d ctx) 2"
  by (simp add: build_risk_result_def Let_def)

lemma result_estimated_cost:
  "estimated_cost (build_risk_result img (d # ds) ctx)
     = py_round (estimate_cost (global_score_of d ctx) d ctx) 2"
  by (simp add: build_risk_result_def Let_def)

lemma result_mitigated_cost:
  "mitigated_cost (build_risk_result img (d # ds) ctx)
     = py_round (mitigated_cost_of (global_score_of d ctx) (mitigated_score_of d ctx)
                   (estimate_cost (global_score_of d ctx) d ctx)) 2"
  by (simp add: build_risk_result_def Let_def)

lemma result_risk_reduction:
  "risk_reduction_pct (build_risk_result img (d # ds) ctx)
     = py_round (risk_reduction_pct_of (global_score_of d ctx) (mitigated_score_of d ctx)) 1"
  by (simp add: build_risk_result_def Let_def)

lemma global_score_of_eq:
  "global_score_of d ctx =
     py_round (physical_score d ctx * w_physical) 3
     + py_round (electrical_score d ctx * w_electrical) 3
     + py_round (human_safety_score d ctx * w_human) 3
     + py_round (business_score d ctx * w_business) 3
     + py_round (model_confidence_score d * w_model_conf) 3"
  by (simp add: global_score_of_def build_factors_def factor_entry_def Let_def)

lemma mitigated_score_of_eq:
  "mitigated_score_of d ctx =
     physical_score d ctx * 0.5 * w_physical
     + electrical_score d ctx * 0.5 * w_electrical
     + human_safety_score d ctx * 0.6 * w_human
     + business_score d ctx * 0.7 * w_business
     + model_confidence_score d * w_model_conf"
  by (simp add: mitigated_score_of_def apply_mitigation_def Let_def)

subsection \<open>The other scenarios\<close>

lemma water_factors:
  "build_factors water_detection corridor_context =
     [\<lparr>name = ''physical'', fvalue = 9.6, weight = 0.35, contribution = 3.36\<rparr>,
      \<lparr>name = ''electrical'', fvalue = 0, weight = 0.2, contribution = 0\<rparr>,
      \<lparr>name = ''human_safety'', fvalue = 8.4, weight = 0.2, contribution = 1.68\<rparr>,
      \<lparr>name = ''business'', fvalue = 0, weight = 0.15, contribution = 0\<rparr>,
      \<lparr>name = ''model_confidence'', fvalue = 1.01, weight = 0.1, contribution = 0.101\<rparr>]"
  by code_simp

lemma oil_5002_factors:
  "build_factors oil_detection production_context_5002 =
     [\<lparr>name = ''physical'', fvalue = 32, weight = 0.35, contribution = 11.2\<rparr>,
      \<lparr>name = ''electrical'', fvalue = 40, weight = 0.2, contribution = 8\<rparr>,
      \<lparr>name = ''human_safety'', fvalue = 40, weight = 0.2, contribution = 8\<rparr>,
      \<lparr>name = ''business'', fvalue = 10, weight = 0.15, contribution = 1.501\<rparr>,
      \<lparr>name = ''model_confidence'', fvalue = 93, weight = 0.1, contribution = 9.3\<rparr>]"
  by code_simp

lemma chemical_global: "global_score_of chemical_detection electrical_room_context = 79.16"
  by code_simp

lemma chemical_recommendations:
  "build_recommendations ''CRITICAL'' chemical_detection electrical_room_context
     = [rec_isolate, rec_chemical, rec_power_cutoff, rec_inform_hse, rec_document_root_causes]"
  by code_simp

lemma document_not_inform: "rec_document_root_causes \<noteq> rec_inform_hse"
  by code_simp

subsection \<open>The global score and the sum of the contributions\<close>

text \<open>
  Claim C1, as stated: the reported global score equals exactly the sum of the five reported
  contributions. It does not: the contributions are reported with three decimals and the
  global score is their sum rounded to two. For the small water spill the contributions are
  3.36, 0, 1.68, 0 and 0.101, their sum is 5.141, and the reported score is 5.14.
\<close>

theorem global_score_not_sum_counterexample:
  "global_severity_score (build_risk_result ''img'' [water_detection] corridor_context) = 5.14
   \<and> sum_list (map contribution
         (factors (build_risk_result ''img'' [water_detection] corridor_context))) = 5.141
   \<and> global_severity_score (build_risk_result ''img'' [water_detection] corridor_context)
       \<noteq> sum_list (map contribution
           (factors (build_risk_result ''img'' [water_detection] corridor_context)))"
  by (simp add: result_factors result_global global_score_of_def water_factors round_defs)

text \<open>
  Claim C1, amended: for a non-empty list of detections the reported global score is a
  number with two decimals that lies within 0.005 of the sum of the five reported
  contributions (the engine reports that sum rounded to two decimals, while the contributions
  carry three); it need not be the sum itself. Both statements are up to the allowance for
  double arithmetic.
\<close>

theorem global_score_near_sum:
  "(\<exists>k::int. \<bar>global_severity_score (build_risk_result img (d # ds) ctx) - of_int k / 100\<bar>
        \<le> float_tolerance)
   \<and> \<bar>global_severity_score (build_risk_result img (d # ds) ctx)
       - sum_list (map contribution (factors (build_risk_result img (d # ds) ctx)))\<bar>
       \<le> 0.005 + float_tolerance"
proof -
  have "\<bar>py_round (global_score_of d ctx) 2 - global_score_of d ctx\<bar> \<le> 0.005 + float_tolerance"
    using py_round_2_err [of "global_score_of d ctx"] float_tolerance_nonneg by simp
  then show ?thesis
    using py_round_2_decimal [of "global_score_of d ctx"]
    by (simp only: result_factors result_global global_score_of_def simp_thms)
qed

subsection \<open>Recommendations\<close>

text \<open>
  Claim C9, as stated: the list ends with the escalation to the HSE officer when the level
  is HIGH or CRITICAL. It does not: in that case the engine appends two instructions, the
  escalation and then the documentation of the incident with a root-cause analysis. For the
  chemical spill in the electrical room the level is CRITICAL and the list has five entries,
  the last of which is the documentation instruction.
\<close>

theorem recommendations_order_counterexample:
  "global_severity_level (build_risk_result ''img'' [chemical_detection] electrical_room_context)
     = ''CRITICAL''
   \<and> recommendations (build_risk_result ''img'' [chemical_detection] electrical_room_context)
       = [rec_isolate, rec_chemical, rec_power_cutoff, rec_inform_hse, rec_document_root_causes]
   \<and> last (recommendations
         (build_risk_result ''img'' [chemical_detection] electrical_room_context))
       \<noteq> rec_inform_hse"
  by (simp add: result_level result_recommendations chemical_global severity_level_def
        chemical_recommendations document_not_inform)

text \<open>
  Claim C9, amended: for a non-empty list of detections the recommendations are, in this
  order: the isolation instruction; the handling instruction of the substance for oil, water
  or chemical, and none for any other substance; the power cut-off instruction exactly when
  the zone type is electrical_room; and last, when the level is HIGH or CRITICAL, the
  escalation to the HSE officer followed by the documentation with root-cause analysis,
  otherwise the plain documentation instruction. The level is the one reported in the result.
\<close>

theorem recommendations_order:
  "build_recommendations level det ctx =
     [rec_isolate]
     @ (if lower (str_or (substance_pred det) ''unknown'') = ''oil'' then [rec_oil]
        else if lower (str_or (substance_pred det) ''unknown'') = ''water'' then [rec_water]
        else if lower (str_or (substance_pred det) ''unknown'') = ''chemical'' then [rec_chemical]
        else [])
     @ (if lower (opt_str_or (zone_type ctx) '''') = ''electrical_room''
        then [rec_power_cutoff] else [])
     @ (if level = ''HIGH'' \<or> level = ''CRITICAL''
        then [rec_inform_hse, rec_document_root_causes]
        else [rec_document])
   \<and> recommendations (build_risk_result img (d # ds) ctx) =
       build_recommendations (global_severity_level (build_risk_result img (d # ds) ctx)) d ctx"
  by (simp add: build_recommendations_def build_risk_result_def Let_def)

subsection \<open>Bounds\<close>

lemma clamp100_bounds: "0 \<le> clamp100 x \<and> clamp100 x \<le> 100"
  by (simp add: clamp100_def)

lemma physical_bounds: "0 \<le> physical_score d ctx \<and> physical_score d ctx \<le> 100"
  by (simp only: physical_score_def Let_def clamp100_bounds)

lemma electrical_bounds: "0 \<le> electrical_score d ctx \<and> electrical_score d ctx \<le> 100"
  by (simp only: electrical_score_def Let_def clamp100_bounds)

lemma human_bounds: "0 \<le> human_safety_score d ctx \<and> human_safety_score d ctx \<le> 100"
  by (simp only: human_safety_score_def Let_def clamp100_bounds)

lemma business_bounds: "0 \<le> business_score d ctx \<and> business_score d ctx \<le> 100"
  by (simp only: business_score_def Let_def clamp100_bounds)

lemma model_bounds: "0 \<le> model_confidence_score d \<and> model_confidence_score d \<le> 100"
  by (simp only: model_confidence_score_def clamp100_bounds)

lemma py_round_bounds_2:
  assumes "0 \<le> x" "x \<le> 100"
  shows "0 \<le> py_round x 2 \<and> py_round x 2 \<le> 100"
proof -
  have "py_round x 2 \<le> py_round 100 2" using assms by (simp add: py_round_mono)
  moreover have "py_round 100 2 = 100" by (simp add: round_defs)
  ultimately show ?thesis using assms by (simp add: py_round_nonneg)
qed

lemma contribution_bounds:
  assumes "0 \<le> v" "v \<le> 100" "0 \<le> w" "py_round (100 * w) 3 = 100 * w"
  shows "0 \<le> py_round (v * w) 3 \<and> py_round (v * w) 3 \<le> 100 * w"
proof -
  have "v * w \<le> 100 * w" using assms by (simp add: mult_right_mono)
  then have "py_round (v * w) 3 \<le> py_round (100 * w) 3" by (rule py_round_mono)
  moreover have "0 \<le> v * w" using assms by simp
  ultimately show ?thesis using assms by (simp add: py_round_nonneg)
qed

lemma global_score_of_bounds: "0 \<le> global_score_of d ctx \<and> global_score_of d ctx \<le> 100"
proof -
  have p: "0 \<le> py_round (physical_score d ctx * w_physical) 3
           \<and> py_round (physical_score d ctx * w_physical) 3 \<le> 100 * w_physical"
    using physical_bounds [of d ctx]
    by (intro contribution_bounds) (simp_all add: w_physical_def round_defs)
  have e: "0 \<le> py_round (electrical_score d ctx * w_electrical) 3
           \<and> py_round (electrical_score d ctx * w_electrical) 3 \<le> 100 * w_electrical"
    using electrical_bounds [of d ctx]
    by (intro contribution_bounds) (simp_all add: w_electrical_def round_defs)
  have h: "0 \<le> py_round (human_safety_score d ctx * w_human) 3
           \<and> py_round (human_safety_score d ctx * w_human) 3 \<le> 100 * w_human"
    using human_bounds [of d ctx]
    by (intro contribution_bounds) (simp_all add: w_human_def round_defs)
  have b: "0 \<le> py_round (business_score d ctx * w_business) 3
           \<and> py_round (business_score d ctx * w_business) 3 \<le> 100 * w_business"
    using business_bounds [of d ctx]
    by (intro contribution_bounds) (simp_all add: w_business_def round_defs)
  have m: "0 \<le> py_round (model_confidence_score d * w_model_conf) 3
           \<and> py_round (model_confidence_score d * w_model_conf) 3 \<le> 100 * w_model_conf"
    using model_bounds [of d]
    by (intro contribution_bounds) (simp_all add: w_model_conf_def round_defs)
  have "100 * w_physical + 100 * w_electrical + 100 * w_human + 100 * w_business
          + 100 * w_model_conf = 100"
    by (simp add: weight_defs)
  with p e h b m show ?thesis
    unfolding global_score_of_eq by linarith
qed

text \<open>
  Claim C7. Whatever the detection and the context (no condition is put on the confidence,
  the area ratio or the production value, which may be negative or above 1), each of the
  five sub-scores lies between 0 and 100, and so do the five values reported in the factors
  and the reported global score; the last two also hold for an empty list of detections.
\<close>

theorem scores_within_0_100:
  "0 \<le> physical_score d ctx \<and> physical_score d ctx \<le> 100
   \<and> 0 \<le> electrical_score d ctx \<and> electrical_score d ctx \<le> 100
   \<and> 0 \<le> human_safety_score d ctx \<and> human_safety_score d ctx \<le> 100
   \<and> 0 \<le> business_score d ctx \<and> business_score d ctx \<le> 100
   \<and> 0 \<le> model_confidence_score d \<and> model_confidence_score d \<le> 100
   \<and> list_all (\<lambda>f. 0 \<le> fvalue f \<and> fvalue f \<le> 100)
        (factors (build_risk_result img dets ctx))
   \<and> 0 \<le> global_severity_score (build_risk_result img dets ctx)
   \<and> global_severity_score (build_risk_result img dets ctx) \<le> 100"
proof -
  have "list_all (\<lambda>f. 0 \<le> fvalue f \<and> fvalue f \<le> 100)
          (factors (build_risk_result img dets ctx))
        \<and> 0 \<le> global_severity_score (build_risk_result img dets ctx)
        \<and> global_severity_score (build_risk_result img dets ctx) \<le> 100"
  proof (cases dets)
    case Nil
    then show ?thesis by (simp add: build_risk_result_def)
  next
    case (Cons x xs)
    have "list_all (\<lambda>f. 0 \<le> fvalue f \<and> fvalue f \<le> 100) (build_factors x ctx)"
      using physical_bounds [of x ctx] electrical_bounds [of x ctx] human_bounds [of x ctx]
        business_bounds [of x ctx] model_bounds [of x]
      by (simp add: build_factors_def factor_entry_def Let_def py_round_bounds_2)
    moreover have "0 \<le> py_round (global_score_of x ctx) 2
                   \<and> py_round (global_score_of x ctx) 2 \<le> 100"
      using global_score_of_bounds [of x ctx] by (simp add: py_round_bounds_2)
    ultimately show ?thesis
      using Cons by (simp add: result_factors result_global)
  qed
  then show ?thesis
    using physical_bounds [of d ctx] electrical_bounds [of d ctx] human_bounds [of d ctx]
      business_bounds [of d ctx] model_bounds [of d]
    by simp
qed

subsection \<open>Mitigation\<close>

text \<open>
  The physical score is never below 9.6: the smallest base is 20, the smallest area factor
  0.6 and the smallest floor factor 0.8.
\<close>

lemma physical_ge: "9.6 \<le> physical_score d ctx"
  by (simp add: physical_score_def Let_def clamp100_def area_factor_def)

lemma py_round_3_lower: "x - 1 / 2000 \<le> py_round x 3"
proof -
  have "\<bar>py_round x 3 - x\<bar> \<le> 1 / 2000"
    using py_round_err [of x 3] by simp
  then show ?thesis by linarith
qed

lemma mitigated_score_nonneg: "0 \<le> mitigated_score_of d ctx"
  using physical_bounds [of d ctx] electrical_bounds [of d ctx] human_bounds [of d ctx]
    business_bounds [of d ctx] model_bounds [of d]
  by (simp add: mitigated_score_of_eq weight_defs)

text \<open>
  The rounding of the five contributions can lower the global score by 0.0025 at most, and
  the mitigation takes at least 0.175 times 9.6 off the weighted sum.
\<close>

lemma mitigated_below_global: "mitigated_score_of d ctx + 1 \<le> global_score_of d ctx"
  using physical_ge [of d ctx] electrical_bounds [of d ctx] human_bounds [of d ctx]
    business_bounds [of d ctx] model_bounds [of d]
    py_round_3_lower [of "physical_score d ctx * w_physical"]
    py_round_3_lower [of "electrical_score d ctx * w_electrical"]
    py_round_3_lower [of "human_safety_score d ctx * w_human"]
    py_round_3_lower [of "business_score d ctx * w_business"]
    py_round_3_lower [of "model_confidence_score d * w_model_conf"]
  unfolding mitigated_score_of_eq global_score_of_eq weight_defs
  by simp

lemma global_score_pos: "0 < global_score_of d ctx"
  using mitigated_below_global [of d ctx] mitigated_score_nonneg [of d ctx] by linarith

lemma estimate_cost_nonneg: "0 \<le> estimate_cost g d ctx"
  by (simp add: estimate_cost_def Let_def)

lemma mitigated_cost_of_le:
  assumes "0 < g" "0 \<le> m" "m \<le> g" "0 \<le> c"
  shows "mitigated_cost_of g m c \<le> c"
proof -
  have "m / g \<le> 1" using assms by simp
  then have "c * (m / g) \<le> c * 1" using assms by (intro mult_left_mono) simp_all
  then show ?thesis using assms by (simp add: mitigated_cost_of_def)
qed

lemma risk_reduction_pct_of_nonneg:
  assumes "0 < g" "m \<le> g"
  shows "0 \<le> risk_reduction_pct_of g m"
  using assms by (simp add: risk_reduction_pct_of_def)

text \<open>
  Claim C10. For a non-empty list of detections the score after mitigation never exceeds the
  score before it, both as computed and as reported; the reported risk reduction is not
  negative, and the reported cost after mitigation never exceeds the reported cost before.
\<close>

theorem mitigation_never_raises:
  "mitigated_score_of d ctx \<le> global_score_of d ctx
   \<and> mitigated_severity_score (build_risk_result img (d # ds) ctx)
       \<le> global_severity_score (build_risk_result img (d # ds) ctx)
   \<and> 0 \<le> risk_reduction_pct (build_risk_result img (d # ds) ctx)
   \<and> mitigated_cost (build_risk_result img (d # ds) ctx)
       \<le> estimated_cost (build_risk_result img (d # ds) ctx)"
proof -
  have le: "mitigated_score_of d ctx \<le> global_score_of d ctx"
    using mitigated_below_global [of d ctx] by linarith
  have pos: "0 < global_score_of d ctx" by (rule global_score_pos)
  have "py_round (mitigated_score_of d ctx) 2 \<le> py_round (global_score_of d ctx) 2"
    using le by (rule py_round_mono)
  moreover have "0 \<le> py_round (risk_reduction_pct_of (global_score_of d ctx)
                           (mitigated_score_of d ctx)) 1"
    using pos le by (intro py_round_nonneg risk_reduction_pct_of_nonneg)
  moreover have "py_round (mitigated_cost_of (global_score_of d ctx) (mitigated_score_of d ctx)
                     (estimate_cost (global_score_of d ctx) d ctx)) 2
                 \<le> py_round (estimate_cost (global_score_of d ctx) d ctx) 2"
    using pos le mitigated_score_nonneg [of d ctx] estimate_cost_nonneg
    by (intro py_round_mono mitigated_cost_of_le)
  ultimately show ?thesis
    using le
    by (simp only: result_global result_mitigated_score result_estimated_cost
          result_mitigated_cost result_risk_reduction simp_thms)
qed

subsection \<open>Contributions\<close>

text \<open>
  Claim C6, as stated: each reported contribution is the rounding of the reported value
  times the weight. For the business factor it is not: with a production value of 5002 per
  hour the business score is 10.004, reported as the value 10.0, and the contribution is
  the rounding of 10.004 times 0.15, that is 1.501, whereas 10.0 times 0.15 is 1.5.
\<close>

theorem contribution_of_reported_value_counterexample:
  "factors (build_risk_result ''img'' [oil_detection] production_context_5002) ! 3
     = \<lparr>name = ''business'', fvalue = 10, weight = 0.15, contribution = 1.501\<rparr>
   \<and> py_round (10 * 0.15) 3 = 1.5
   \<and> contribution (factors (build_risk_result ''img'' [oil_detection] production_context_5002) ! 3)
       \<noteq> py_round
           (fvalue (factors (build_risk_result ''img'' [oil_detection] production_context_5002) ! 3)
            * weight (factors (build_risk_result ''img'' [oil_detection] production_context_5002) ! 3))
           3"
  by (simp add: result_factors oil_5002_factors round_defs)

text \<open>
  One entry of the factor list: the value has two decimals and lies within 0.005 of the
  sub-score, the contribution has three decimals and lies within 0.0005 of the sub-score
  times the weight; so the contribution lies within 0.0005 plus 0.005 times the weight of
  the reported value times the weight.
\<close>

lemma factor_entry_reported:
  assumes "0 \<le> w" "w \<le> 1"
  shows "\<exists>k::int. \<bar>fvalue (factor_entry n v w) - of_int k / 100\<bar> \<le> float_tolerance"
    and "\<exists>k::int. \<bar>contribution (factor_entry n v w) - of_int k / 1000\<bar> \<le> float_tolerance"
    and "\<bar>fvalue (factor_entry n v w) - v\<bar> \<le> 0.005 + float_tolerance"
    and "\<bar>contribution (factor_entry n v w) - v * weight (factor_entry n v w)\<bar>
         \<le> 0.0005 + float_tolerance"
    and "\<bar>contribution (factor_entry n v w)
           - fvalue (factor_entry n v w) * weight (factor_entry n v w)\<bar>
         \<le> 0.0005 + 0.005 * weight (factor_entry n v w) + 2 * float_tolerance"
proof -
  have a: "\<bar>py_round v 2 - v\<bar> \<le> 1 / 200" by (rule py_round_2_err)
  have b: "\<bar>py_round (v * w) 3 - v * w\<bar> \<le> 1 / 2000" by (rule py_round_3_err)
  have t: "0 \<le> float_tolerance" by (rule float_tolerance_nonneg)
  have "\<bar>py_round v 2 - v\<bar> * w \<le> (1 / 200) * w"
    using a assms(1) by (rule mult_right_mono)
  then have "\<bar>(py_round v 2 - v) * w\<bar> \<le> w / 200"
    using assms(1) by (simp add: abs_mult)
  then have c: "\<bar>py_round v 2 * w - v * w\<bar> \<le> w / 200"
    by (simp add: algebra_simps)
  show "\<exists>k::int. \<bar>fvalue (factor_entry n v w) - of_int k / 100\<bar> \<le> float_tolerance"
    using py_round_2_decimal [of v] by (simp add: factor_entry_def)
  show "\<exists>k::int. \<bar>contribution (factor_entry n v w) - of_int k / 1000\<bar> \<le> float_tolerance"
    using py_round_3_decimal [of "v * w"] by (simp add: factor_entry_def)
  show "\<bar>fvalue (factor_entry n v w) - v\<bar> \<le> 0.005 + float_tolerance"
    using a t by (simp add: factor_entry_def)
  show "\<bar>contribution (factor_entry n v w) - v * weight (factor_entry n v w)\<bar>
        \<le> 0.0005 + float_tolerance"
    using b t by (simp add: factor_entry_def)
  have "\<bar>py_round (v * w) 3 - py_round v 2 * w\<bar> \<le> 1 / 2000 + w / 200 + 2 * float_tolerance"
    using b c t by linarith
  then show "\<bar>contribution (factor_entry n v w)
               - fvalue (factor_entry n v w) * weight (factor_entry n v w)\<bar>
             \<le> 0.0005 + 0.005 * weight (factor_entry n v w) + 2 * float_tolerance"
    by (simp add: factor_entry_def)
qed

lemma weights_in_unit_interval:
  "0 \<le> w_physical" "w_physical \<le> 1" "0 \<le> w_electrical" "w_electrical \<le> 1"
  "0 \<le> w_human" "w_human \<le> 1" "0 \<le> w_business" "w_business \<le> 1"
  "0 \<le> w_model_conf" "w_model_conf \<le> 1"
  by (simp_all add: weight_defs)

text \<open>
  Claim C6, amended: for a non-empty list of detections the factors are, in this order,
  physical, electrical, human_safety, business and model_confidence, with the weights 0.35,
  0.20, 0.20, 0.15 and 0.10, which sum to 1. The reported value of a factor is its sub-score
  rounded to two decimals and its reported contribution is the sub-score itself, before that
  rounding, times the weight, rounded to three decimals: the value is a number with two
  decimals within 0.005 of the sub-score, and the contribution a number with three decimals
  within 0.0005 of the sub-score times the weight. So the reported contribution lies within
  0.0005 plus 0.005 times the weight of the reported value times the weight, and need not
  be its rounding. The bounds are up to the allowance for double arithmetic.
\<close>

theorem reported_factors:
  "map name (factors (build_risk_result img (d # ds) ctx))
     = [''physical'', ''electrical'', ''human_safety'', ''business'', ''model_confidence'']
   \<and> map weight (factors (build_risk_result img (d # ds) ctx)) = [0.35, 0.20, 0.20, 0.15, 0.10]
   \<and> sum_list (map weight (factors (build_risk_result img (d # ds) ctx))) = 1
   \<and> list_all2
        (\<lambda>f s. (\<exists>k::int. \<bar>fvalue f - of_int k / 100\<bar> \<le> float_tolerance)
               \<and> (\<exists>k::int. \<bar>contribution f - of_int k / 1000\<bar> \<le> float_tolerance)
               \<and> \<bar>fvalue f - s\<bar> \<le> 0.005 + float_tolerance
               \<and> \<bar>contribution f - s * weight f\<bar> \<le> 0.0005 + float_tolerance)
        (factors (build_risk_result img (d # ds) ctx))
        [physical_score d ctx, electrical_score d ctx, human_safety_score d ctx,
         business_score d ctx, model_confidence_score d]
   \<and> list_all
        (\<lambda>f. \<bar>contribution f - fvalue f * weight f\<bar>
               \<le> 0.0005 + 0.005 * weight f + 2 * float_tolerance)
        (factors (build_risk_result img (d # ds) ctx))"
proof -
  have n: "map name (build_factors d ctx)
       = [''physical'', ''electrical'', ''human_safety'', ''business'', ''model_confidence'']"
    by (simp add: build_factors_def factor_entry_def Let_def)
  have w: "map weight (build_factors d ctx) = [0.35, 0.20, 0.20, 0.15, 0.10]"
    by (simp add: build_factors_def factor_entry_def weight_defs Let_def)
  have s: "sum_list (map weight (build_factors d ctx)) = 1"
    unfolding w by simp
  have b: "list_all2
        (\<lambda>f s. (\<exists>k::int. \<bar>fvalue f - of_int k / 100\<bar> \<le> float_tolerance)
               \<and> (\<exists>k::int. \<bar>contribution f - of_int k / 1000\<bar> \<le> float_tolerance)
               \<and> \<bar>fvalue f - s\<bar> \<le> 0.005 + float_tolerance
               \<and> \<bar>contribution f - s * weight f\<bar> \<le> 0.0005 + float_tolerance)
        (build_factors d ctx)
        [physical_score d ctx, electrical_score d ctx, human_safety_score d ctx,
         business_score d ctx, model_confidence_score d]"
    by (simp only: build_factors_def Let_def list_all2_Cons list_all2_Nil
          factor_entry_reported weights_in_unit_interval simp_thms)
  have c: "list_all
        (\<lambda>f. \<bar>contribution f - fvalue f * weight f\<bar>
               \<le> 0.0005 + 0.005 * weight f + 2 * float_tolerance)
        (build_factors d ctx)"
    by (simp only: build_factors_def Let_def list.pred_inject
          factor_entry_reported weights_in_unit_interval simp_thms)
  show ?thesis
    using n w s b c by (simp only: result_factors simp_thms)
qed

subsection \<open>The cost after mitigation\<close>

lemma oil_cost: "estimate_cost 38.9 oil_detection production_context = 8534.4"
  by code_simp

lemma oil_result_global:
  "global_severity_score (build_risk_result ''img'' [oil_detection] production_context) = 38.9"
  by code_simp

lemma oil_result_mitigated:
  "mitigated_severity_score (build_risk_result ''img'' [oil_detection] production_context)
     = 25.38"
  by code_simp

lemma oil_result_cost:
  "estimated_cost (build_risk_result ''img'' [oil_detection] production_context) = 8534.4"
  by code_simp

lemma oil_result_mitigated_cost:
  "mitigated_cost (build_risk_result ''img'' [oil_detection] production_context) = 5568.2"
  by code_simp

lemma abs_prod_bound:
  fixes x y k :: real
  assumes "\<bar>x\<bar> \<le> k" "0 \<le> y"
  shows "- (k * y) \<le> x * y" and "x * y \<le> k * y"
proof -
  have lo: "- k \<le> x" and hi: "x \<le> k" using assms(1) by linarith+
  have "(- k) * y \<le> x * y" using lo assms(2) by (rule mult_right_mono)
  then show "- (k * y) \<le> x * y" by simp
  show "x * y \<le> k * y" using hi assms(2) by (rule mult_right_mono)
qed

lemma abs_prod_bound2:
  fixes x y k :: real
  assumes "\<bar>x\<bar> \<le> k" "\<bar>y\<bar> \<le> k"
  shows "- (k * k) \<le> x * y" and "x * y \<le> k * k"
proof -
  have "\<bar>x\<bar> * \<bar>y\<bar> \<le> k * k"
    using assms by (intro mult_mono) simp_all
  then have "\<bar>x * y\<bar> \<le> k * k" by (simp add: abs_mult)
  then show "- (k * k) \<le> x * y" and "x * y \<le> k * k" by linarith+
qed

text \<open>Four quantities in proportion, each then rounded by at most 0.005.\<close>

lemma rounded_proportion:
  fixes g m ec mc G M E C :: real
  assumes nonneg: "0 \<le> g" "0 \<le> m" "0 \<le> ec" "0 \<le> mc"
    and proportion: "mc * g = ec * m"
    and err: "\<bar>G - g\<bar> \<le> 1 / 200" "\<bar>M - m\<bar> \<le> 1 / 200" "\<bar>E - ec\<bar> \<le> 1 / 200"
      "\<bar>C - mc\<bar> \<le> 1 / 200"
  shows "\<bar>C * G - E * M\<bar> \<le> 1 / 200 * (C + E + M + G) + 3 / 20000"
proof -
  define e a b c where "e = G - g" and "a = C - mc" and "b = E - ec" and "c = M - m"
  have ids: "G = g + e" "C = mc + a" "E = ec + b" "M = m + c"
    by (simp_all add: e_def a_def b_def c_def)
  define p1 p2 p3 p4 p5 p6
    where "p1 = e * mc" and "p2 = a * g" and "p3 = a * e"
      and "p4 = c * ec" and "p5 = b * m" and "p6 = b * c"
  have "C * G - E * M = (mc * g - ec * m) + e * mc + a * g + a * e - c * ec - b * m - b * c"
    unfolding ids by (simp add: algebra_simps)
  then have eq: "C * G - E * M = p1 + p2 + p3 - p4 - p5 - p6"
    using proportion by (simp add: p1_def p2_def p3_def p4_def p5_def p6_def)
  have ea: "\<bar>e\<bar> \<le> 1 / 200" "\<bar>a\<bar> \<le> 1 / 200" "\<bar>b\<bar> \<le> 1 / 200" "\<bar>c\<bar> \<le> 1 / 200"
    using err by (simp_all add: e_def a_def b_def c_def)
  have t1: "- (1 / 200 * mc) \<le> p1" "p1 \<le> 1 / 200 * mc"
    unfolding p1_def by (rule abs_prod_bound [OF ea(1) nonneg(4)])+
  have t2: "- (1 / 200 * g) \<le> p2" "p2 \<le> 1 / 200 * g"
    unfolding p2_def by (rule abs_prod_bound [OF ea(2) nonneg(1)])+
  have t3: "- (1 / 40000) \<le> p3" "p3 \<le> 1 / 40000"
    unfolding p3_def using abs_prod_bound2 [OF ea(2) ea(1)] by simp_all
  have t4: "- (1 / 200 * ec) \<le> p4" "p4 \<le> 1 / 200 * ec"
    unfolding p4_def by (rule abs_prod_bound [OF ea(4) nonneg(3)])+
  have t5: "- (1 / 200 * m) \<le> p5" "p5 \<le> 1 / 200 * m"
    unfolding p5_def by (rule abs_prod_bound [OF ea(3) nonneg(2)])+
  have t6: "- (1 / 40000) \<le> p6" "p6 \<le> 1 / 40000"
    unfolding p6_def using abs_prod_bound2 [OF ea(3) ea(4)] by simp_all
  have up: "mc \<le> C + 1 / 200" "g \<le> G + 1 / 200" "ec \<le> E + 1 / 200" "m \<le> M + 1 / 200"
    using err by linarith+
  have lower: "- (1 / 200 * (mc + g + ec + m) + 1 / 20000) \<le> p1 + p2 + p3 - p4 - p5 - p6"
    using t1(1) t2(1) t3(1) t4(2) t5(2) t6(2) by argo
  have upper: "p1 + p2 + p3 - p4 - p5 - p6 \<le> 1 / 200 * (mc + g + ec + m) + 1 / 20000"
    using t1(2) t2(2) t3(2) t4(1) t5(1) t6(1) by argo
  show ?thesis
    unfolding eq using lower upper up by argo
qed

lemma mitigated_cost_of_prop:
  "0 < g \<Longrightarrow> mitigated_cost_of g m c * g = c * m"
  by (simp add: mitigated_cost_of_def)

lemma mitigated_cost_of_nonneg:
  "0 < g \<Longrightarrow> 0 \<le> m \<Longrightarrow> 0 \<le> c \<Longrightarrow> 0 \<le> mitigated_cost_of g m c"
  by (simp add: mitigated_cost_of_def)

lemma reported_global_ge_1: "1 \<le> global_severity_score (build_risk_result img (d # ds) ctx)"
proof -
  have "1 \<le> global_score_of d ctx"
    using mitigated_below_global [of d ctx] mitigated_score_nonneg [of d ctx] by linarith
  then have "py_round 1 2 \<le> py_round (global_score_of d ctx) 2" by (rule py_round_mono)
  moreover have "py_round 1 2 = 1" by (simp add: round_defs)
  ultimately show ?thesis by (simp add: result_global)
qed

text \<open>
  Claim C2, as stated: the ratio of the reported costs equals the ratio of the reported
  scores. It does not: each of the four numbers is rounded to two decimals on its own. In
  the demonstration scenario the reported costs are 8534.4 and 5568.2 and the reported scores
  38.9 and 25.38; the first ratio is about 0.6524419 and the second about 0.6524422.
\<close>

theorem mitigated_cost_ratio_counterexample:
  "estimated_cost (build_risk_result ''img'' [oil_detection] production_context) = 8534.4
   \<and> mitigated_cost (build_risk_result ''img'' [oil_detection] production_context) = 5568.2
   \<and> mitigated_severity_score (build_risk_result ''img'' [oil_detection] production_context)
       = 25.38
   \<and> global_severity_score (build_risk_result ''img'' [oil_detection] production_context) = 38.9
   \<and> 0 < global_severity_score (build_risk_result ''img'' [oil_detection] production_context)
   \<and> mitigated_cost (build_risk_result ''img'' [oil_detection] production_context)
         / estimated_cost (build_risk_result ''img'' [oil_detection] production_context)
       \<noteq> mitigated_severity_score (build_risk_result ''img'' [oil_detection] production_context)
         / global_severity_score (build_risk_result ''img'' [oil_detection] production_context)"
  unfolding oil_result_global oil_result_mitigated oil_result_cost oil_result_mitigated_cost
  by simp

text \<open>
  Claim C2, amended: for a non-empty list of detections the reported global score is greater
  than 0, so a reported global score of 0 occurs for an empty list only, and then the
  reported cost after mitigation is 0. The engine computes the cost after mitigation as the
  cost before mitigation times the ratio of the score after mitigation to the global score,
  and reports the four numbers each rounded to two decimals on its own; so the reported
  ratios agree up to that rounding only: the cross products
  \<open>mitigated_cost \<times> global_score\<close> and \<open>estimated_cost \<times> mitigated_score\<close> of the reported
  numbers differ by at most 0.01 times the sum of the four. The bound is stated for costs
  in the range of the doubles, which the reals of the model cannot leave.
\<close>

theorem reported_cost_ratio:
  "(dets \<noteq> [] \<longrightarrow> 0 < global_severity_score (build_risk_result img dets ctx))
   \<and> (global_severity_score (build_risk_result img dets ctx) = 0
        \<longrightarrow> mitigated_cost (build_risk_result img dets ctx) = 0)
   \<and> (estimated_cost (build_risk_result img dets ctx) \<le> 10 ^ 300
        \<longrightarrow> \<bar>mitigated_cost (build_risk_result img dets ctx)
               * global_severity_score (build_risk_result img dets ctx)
             - estimated_cost (build_risk_result img dets ctx)
               * mitigated_severity_score (build_risk_result img dets ctx)\<bar>
            \<le> 0.01 * (mitigated_cost (build_risk_result img dets ctx)
                       + estimated_cost (build_risk_result img dets ctx)
                       + mitigated_severity_score (build_risk_result img dets ctx)
                       + global_severity_score (build_risk_result img dets ctx)))"
proof (cases dets)
  case Nil
  then show ?thesis by (simp add: build_risk_result_def)
next
  case (Cons d ds)
  define g where "g = global_score_of d ctx"
  define m where "m = mitigated_score_of d ctx"
  define ec where "ec = estimate_cost g d ctx"
  define mc where "mc = mitigated_cost_of g m ec"
  define G where "G = py_round g 2"
  define M where "M = py_round m 2"
  define E where "E = py_round ec 2"
  define C where "C = py_round mc 2"
  have pos: "0 < g" unfolding g_def by (rule global_score_pos)
  have m0: "0 \<le> m" unfolding m_def by (rule mitigated_score_nonneg)
  have e0: "0 \<le> ec" unfolding ec_def by (rule estimate_cost_nonneg)
  have c0: "0 \<le> mc" unfolding mc_def using pos m0 e0 by (rule mitigated_cost_of_nonneg)
  have pr: "mc * g = ec * m" unfolding mc_def using pos by (rule mitigated_cost_of_prop)
  have G1: "1 \<le> G"
    using reported_global_ge_1 [of img d ds ctx] by (simp add: G_def g_def result_global)
  have nn: "0 \<le> M" "0 \<le> E" "0 \<le> C"
    unfolding M_def E_def C_def using m0 e0 c0 by (simp_all add: py_round_nonneg)
  have g0: "0 \<le> g" using pos by simp
  have "\<bar>C * G - E * M\<bar> \<le> 1 / 200 * (C + E + M + G) + 3 / 20000"
    unfolding G_def M_def E_def C_def
    by (rule rounded_proportion [OF g0 m0 e0 c0 pr py_round_2_err py_round_2_err
          py_round_2_err py_round_2_err])
  then have "\<bar>C * G - E * M\<bar> \<le> (C + E + M + G) / 100"
    using G1 nn by argo
  then have bound: "\<bar>C * G - E * M\<bar> \<le> 0.01 * (C + E + M + G)"
    by simp
  have fields: "global_severity_score (build_risk_result img dets ctx) = G"
    "mitigated_severity_score (build_risk_result img dets ctx) = M"
    "estimated_cost (build_risk_result img dets ctx) = E"
    "mitigated_cost (build_risk_result img dets ctx) = C"
    unfolding Cons G_def M_def E_def C_def g_def m_def ec_def mc_def
    by (simp_all add: result_global result_mitigated_score result_estimated_cost
          result_mitigated_cost)
  show ?thesis
    unfolding fields using G1 bound Cons by simp
qed

text \<open>
  The demonstration scenario, whose cost is in range and whose score is positive, and the
  empty list, whose score is 0.
\<close>

theorem reported_cost_ratio_witness:
  "[oil_detection] \<noteq> []
   \<and> 0 < global_severity_score (build_risk_result ''img'' [oil_detection] production_context)
   \<and> estimated_cost (build_risk_result ''img'' [oil_detection] production_context) \<le> 10 ^ 300
   \<and> \<bar>5568.2 * 38.9 - 8534.4 * 25.38\<bar> \<le> 0.01 * (5568.2 + 8534.4 + 25.38 + (38.9 :: real))
   \<and> global_severity_score (build_risk_result ''img'' [] production_context) = 0
   \<and> mitigated_cost (build_risk_result ''img'' [] production_context) = 0"
proof -
  have e: "global_severity_score (build_risk_result ''img'' [] production_context) = 0"
    by (simp add: build_risk_result_def)
  have c: "estimated_cost (build_risk_result ''img'' [oil_detection] production_context)
             \<le> 10 ^ 300"
    unfolding oil_result_cost by simp
  show ?thesis
    using e c reported_cost_ratio [of "[oil_detection]" "''img''" production_context]
      reported_cost_ratio [of "[]" "''img''" production_context]
    unfolding oil_result_global oil_result_mitigated oil_result_cost oil_result_mitigated_cost
    by simp
qed

subsection \<open>The level and the reported score\<close>

lemma result_mitigated_level:
  "mitigated_severity_level (build_risk_result img (d # ds) ctx)
     = severity_level (mitigated_score_of d ctx)"
  by (simp add: build_risk_result_def Let_def)

lemma borderline_low_score:
  "global_score_of oil_detection_5796 production_far_context = 24.996"
  by code_simp

lemma borderline_medium_score:
  "global_score_of oil_detection_5804 production_far_context = 25.004"
  by code_simp

text \<open>
  Claim C3, as stated: the level is a function of the score, 25 and more giving MEDIUM. Of
  the score that the result reports it is not: the engine classifies the sum of the
  contributions and then rounds that sum to two decimals for the report. The demonstration
  spill away from the machines has the contributions 11.2, 0, 5.6, 2.4 and 5.796 at
  confidence 0.5796, which sum to 24.996, and 5.804 at confidence 0.5804, which gives 25.004:
  both results report the score 25.0, the first with the level LOW and the second with the
  level MEDIUM.
\<close>

theorem level_of_reported_score_counterexample:
  "global_severity_score (build_risk_result ''img'' [oil_detection_5796] production_far_context)
     = 25
   \<and> global_severity_level (build_risk_result ''img'' [oil_detection_5796] production_far_context)
     = ''LOW''
   \<and> global_severity_score (build_risk_result ''img'' [oil_detection_5804] production_far_context)
     = 25
   \<and> global_severity_level (build_risk_result ''img'' [oil_detection_5804] production_far_context)
     = ''MEDIUM''"
  by (simp add: result_global result_level borderline_low_score borderline_medium_score
        severity_level_def round_defs)

text \<open>
  A score and its rounding to two decimals are in the same class, unless the rounding is
  exactly 25, 50 or 75; then the score may be in the class below.
\<close>

lemma level_of_rounded:
  "(py_round g 2 \<noteq> 25 \<and> py_round g 2 \<noteq> 50 \<and> py_round g 2 \<noteq> 75
      \<longrightarrow> severity_level g = severity_level (py_round g 2))
   \<and> (severity_level g = severity_level (py_round g 2)
        \<or> severity_level g = severity_level (py_round g 2 - 0.01))"
proof -
  have lo: "g < 25 \<Longrightarrow> py_round g 2 \<le> 25" "g < 50 \<Longrightarrow> py_round g 2 \<le> 50"
    "g < 75 \<Longrightarrow> py_round g 2 \<le> 75"
    using py_round_mono [of g 25 2] py_round_mono [of g 50 2] py_round_mono [of g 75 2]
    by (simp_all add: py_round_breakpoints)
  have hi: "25 \<le> g \<Longrightarrow> 25 \<le> py_round g 2" "50 \<le> g \<Longrightarrow> 50 \<le> py_round g 2"
    "75 \<le> g \<Longrightarrow> 75 \<le> py_round g 2"
    using py_round_mono [of 25 g 2] py_round_mono [of 50 g 2] py_round_mono [of 75 g 2]
    by (simp_all add: py_round_breakpoints)
  have err: "\<bar>py_round g 2 - g\<bar> \<le> 1 / 200" by (rule py_round_2_err)
  show ?thesis
    using lo hi err unfolding severity_level_def
    by (auto; linarith)
qed

text \<open>
  Claim C3, amended: the classification is a total function with the breakpoints 25, 50 and
  75 (below 25 LOW, from 25 and below 50 MEDIUM, from 50 and below 75 HIGH, from 75 on
  CRITICAL), and the engine applies this one function to the score before mitigation and to
  the score after mitigation, in both cases to the score before it is rounded to two
  decimals for the report. So the reported level is the class of the reported score whenever
  that score is not exactly 25, 50 or 75; at these three values the level is either the
  class of the reported score or the class just below it. This holds for every result, that
  of an empty list of detections included.
\<close>

theorem level_and_reported_score:
  "(x < 25 \<longrightarrow> severity_level x = ''LOW'')
   \<and> (25 \<le> x \<and> x < 50 \<longrightarrow> severity_level x = ''MEDIUM'')
   \<and> (50 \<le> x \<and> x < 75 \<longrightarrow> severity_level x = ''HIGH'')
   \<and> (75 \<le> x \<longrightarrow> severity_level x = ''CRITICAL'')
   \<and> (global_severity_score (build_risk_result img dets ctx) \<notin> {25, 50, 75}
        \<longrightarrow> global_severity_level (build_risk_result img dets ctx)
            = severity_level (global_severity_score (build_risk_result img dets ctx)))
   \<and> (global_severity_level (build_risk_result img dets ctx)
          = severity_level (global_severity_score (build_risk_result img dets ctx))
        \<or> global_severity_level (build_risk_result img dets ctx)
          = severity_level (global_severity_score (build_risk_result img dets ctx) - 0.01))
   \<and> (mitigated_severity_score (build_risk_result img dets ctx) \<notin> {25, 50, 75}
        \<longrightarrow> mitigated_severity_level (build_risk_result img dets ctx)
            = severity_level (mitigated_severity_score (build_risk_result img dets ctx)))
   \<and> (mitigated_severity_level (build_risk_result img dets ctx)
          = severity_level (mitigated_severity_score (build_risk_result img dets ctx))
        \<or> mitigated_severity_level (build_risk_result img dets ctx)
          = severity_level (mitigated_severity_score (build_risk_result img dets ctx) - 0.01))"
proof (cases dets)
  case Nil
  then show ?thesis by (simp add: build_risk_result_def severity_level_def)
next
  case (Cons d ds)
  have "(x < 25 \<longrightarrow> severity_level x = ''LOW'')
        \<and> (25 \<le> x \<and> x < 50 \<longrightarrow> severity_level x = ''MEDIUM'')
        \<and> (50 \<le> x \<and> x < 75 \<longrightarrow> severity_level x = ''HIGH'')
        \<and> (75 \<le> x \<longrightarrow> severity_level x = ''CRITICAL'')"
    by (simp add: severity_level_def)
  then show ?thesis
    using level_of_rounded [of "global_score_of d ctx"]
      level_of_rounded [of "mitigated_score_of d ctx"]
    unfolding Cons result_global result_level result_mitigated_score result_mitigated_level
    by simp
qed

text \<open>
  The breakpoints of the specification's test list, and the demonstration scenario, whose
  reported scores 38.9 and 25.38 are not breakpoints.
\<close>

theorem level_and_reported_score_witness:
  "global_severity_score (build_risk_result ''img'' [oil_detection] production_context)
     \<notin> {25, 50, 75}
   \<and> mitigated_severity_score (build_risk_result ''img'' [oil_detection] production_context)
     \<notin> {25, 50, 75}
   \<and> global_severity_level (build_risk_result ''img'' [oil_detection] production_context)
     = severity_level 38.9
   \<and> mitigated_severity_level (build_risk_result ''img'' [oil_detection] production_context)
     = severity_level 25.38
   \<and> severity_level 24.999 = ''LOW'' \<and> severity_level 25 = ''MEDIUM''
   \<and> severity_level 49.999 = ''MEDIUM'' \<and> severity_level 50 = ''HIGH''
   \<and> severity_level 74.999 = ''HIGH'' \<and> severity_level 75 = ''CRITICAL''"
  using level_and_reported_score [of "24.999" "''img''" "[oil_detection]" production_context]
    level_and_reported_score [of 25] level_and_reported_score [of "49.999"]
    level_and_reported_score [of 50] level_and_reported_score [of "74.999"]
    level_and_reported_score [of 75]
  unfolding oil_result_global oil_result_mitigated
  by simp

subsection \<open>The electrical sub-score\<close>

text \<open>
  Claim C5. The electrical sub-score is the base of the specification's tables times the
  area factor (0.6 up to an area ratio of 0.15, 1.0 up to 0.35, 1.3 above), and the product is
  clamped to the interval from 0 to 100: a product above 100 gives 100 and one below 0 gives
  0. The zone type, the proximity and the substance are compared after the engine's
  normalisation (a missing or empty value replaced by its default, then lower case). For the
  specification's own example, a large chemical spill in an electrical room, the product is
  104 and the score 100.
\<close>

theorem electrical_score_spec:
  "electrical_score det ctx =
     max 0 (min (electrical_base_spec (lower (opt_str_or (zone_type ctx) ''''))
                   (lower (opt_str_or (proximity_to_machines ctx) ''''))
                   (lower (str_or (substance_pred det) ''unknown''))
                 * (if opt_real_or0 (area_ratio det) \<le> 0.15 then 0.6
                    else if opt_real_or0 (area_ratio det) \<le> 0.35 then 1.0
                    else 1.3))
              100)
   \<and> electrical_score chemical_detection electrical_room_context = 100"
proof -
  have c: "electrical_score chemical_detection electrical_room_context = 100"
    by code_simp
  have e: "electrical_score det ctx =
             clamp100 (electrical_base_spec (lower (opt_str_or (zone_type ctx) ''''))
                         (lower (opt_str_or (proximity_to_machines ctx) ''''))
                         (lower (str_or (substance_pred det) ''unknown''))
                       * area_factor (opt_real_or0 (area_ratio det)))"
    by (simp add: electrical_score_def electrical_base_spec_def table_base_def
          electrical_room_table_def machine_zone_table_def Let_def)
  show ?thesis
    by (simp only: c e clamp100_def area_factor_def simp_thms)
qed

end
